theory Spec2Isabelle
  imports Complex_Main "HOL-Library.Word" "HOL-Library.AList"
begin

section \<open>A shallow embedding of the Jenkins client (jenkins.go)\<close>

text \<open>
  The client talks to a remote server over HTTP and writes artifacts to the local file
  system. Every function of the source that performs such a call is modelled as a function
  on a \<open>world\<close>: the world holds the behaviour of the environment (what each call
  answers, as a function of the number of calls made so far) and the chronological trace
  of the calls the program has made. A function that can panic returns an \<open>outcome\<close>.
\<close>

subsection \<open>Basic types\<close>

text \<open>Go's \<open>int\<close> on a 64-bit platform: addition wraps, comparison is signed.\<close>

type_synonym go_int = "64 word"

text \<open>
  The values the JSON decoder stores in an \<open>interface{}\<close>: \<open>nil\<close>, \<open>bool\<close>,
  \<open>float64\<close>, \<open>string\<close>, \<open>[]interface{}\<close> and \<open>map[string]interface{}\<close>.
  A number is represented by the real value of the decoded \<open>float64\<close>; a map by an
  association list read with \<open>map_of\<close>.
\<close>

datatype json =
    JNull
  | JBool bool
  | JNum real
  | JStr string
  | JArr "json list"
  | JObj "(string \<times> json) list"

text \<open>
  Go errors. \<open>ErrorString\<close> is the value of \<open>errors.New\<close>; the other constructors are
  the errors of the library calls, carrying the library's message.
\<close>

datatype error =
    ErrorString string
  | TransportError string
  | JsonError string
  | QueryError string
  | PathError string

datatype 'a outcome = Return 'a | Panic string

type_synonym form = "(string \<times> string list) list"

text \<open>The answer of \<open>http.Get\<close>: a failure, or a status code and a body. The body is
  given by the JSON value it parses to (\<open>None\<close> when it is not JSON).\<close>

datatype http_result = GetFailed string | Response go_int "json option"

text \<open>An open response body (\<open>io.ReadCloser\<close>): the URL it was fetched from and its content.\<close>

datatype reader = Reader string "json option"

datatype logarg = S string | I go_int | N nat | F real

datatype event =
    Get string
  | PostForm string form
  | Close string
  | MkdirAll string
  | Create string
  | Copy string string
  | Sleep nat
  | Log "logarg list"

record world =
  JENKINS_SERVER :: string
  http_Get :: "nat \<Rightarrow> string \<Rightarrow> http_result"
  http_PostForm :: "nat \<Rightarrow> string \<Rightarrow> form \<Rightarrow> string option"
  url_ParseQuery :: "string \<Rightarrow> string + form"
  os_MkdirAll :: "nat \<Rightarrow> string \<Rightarrow> string option"
  os_Create :: "nat \<Rightarrow> string \<Rightarrow> string option"
  clock :: nat
  trace :: "event list"

text \<open>\<open>emit\<close> records an event; \<open>call\<close> records a call answered by the environment and
  advances the clock.\<close>

definition emit :: "event \<Rightarrow> world \<Rightarrow> world" where
  "emit e w = w\<lparr>trace := trace w @ [e]\<rparr>"

definition call :: "event \<Rightarrow> world \<Rightarrow> world" where
  "call e w = w\<lparr>clock := Suc (clock w), trace := trace w @ [e]\<rparr>"

subsection \<open>The structures of the source\<close>

record JenkinsInfo =
  Name :: string
  Description :: string
  Url :: string
  Buildable :: bool
  InQueue :: bool
  LastBuild :: go_int
  LastBuildUrl :: string
  LastStableBuild :: go_int
  LastStableBuildUrl :: string

record JenkinsBuildInfo =
  Name :: string
  ID :: go_int
  Artifacts :: "(string \<times> string) list"
  Building :: bool
  Duration :: real
  EstimatedDuration :: real
  Result :: string
  Timestamp :: real
  Url :: string

subsection \<open>Library functions: \<open>strconv.Itoa\<close>, \<open>path.Clean\<close>, \<open>path.Join\<close>, \<open>path.Dir\<close>\<close>

function digits :: "nat \<Rightarrow> string" where
  "digits n = (if n < 10 then [''0123456789'' ! n]
               else digits (n div 10) @ [''0123456789'' ! (n mod 10)])"
  by pat_completeness auto
termination
  by (relation "measure (\<lambda>n. n)") auto

declare digits.simps [simp del]

definition Itoa :: "go_int \<Rightarrow> string" where
  "Itoa i = (if sint i < 0 then ''-'' @ digits (nat (- sint i)) else digits (nat (sint i)))"

primrec split_on :: "char \<Rightarrow> string \<Rightarrow> string list" where
  "split_on c [] = [[]]"
| "split_on c (x # xs) =
     (if x = c then [] # split_on c xs
      else (x # hd (split_on c xs)) # tl (split_on c xs))"

primrec join_with :: "string \<Rightarrow> string list \<Rightarrow> string" where
  "join_with sep [] = []"
| "join_with sep (x # xs) = (if xs = [] then x else x @ sep @ join_with sep xs)"

text \<open>One path element against the (reversed) list of elements kept so far: empty and
  \<open>.\<close> elements are dropped, \<open>..\<close> removes the element before it, is dropped at the root,
  and is kept at the start of a relative path.\<close>

definition clean_step :: "bool \<Rightarrow> string \<Rightarrow> string list \<Rightarrow> string list" where
  "clean_step rooted c kept =
     (if c = [] \<or> c = ''.'' then kept
      else if c = ''..'' then
        (case kept of
           [] \<Rightarrow> if rooted then [] else [''..'']
         | t # ts \<Rightarrow> if t = ''..'' then ''..'' # kept else ts)
      else c # kept)"

definition path_Clean :: "string \<Rightarrow> string" where
  "path_Clean p =
     (let rooted = (p \<noteq> [] \<and> hd p = CHR ''/'');
          kept = fold (clean_step rooted) (split_on CHR ''/'' p) [];
          out = (if rooted then ''/'' else []) @ join_with ''/'' (rev kept)
      in if out = [] then ''.'' else out)"

definition path_Join :: "string list \<Rightarrow> string" where
  "path_Join elem =
     (case dropWhile (\<lambda>e. e = []) elem of
        [] \<Rightarrow> []
      | e # es \<Rightarrow> path_Clean (join_with ''/'' (e # es)))"

definition path_Dir :: "string \<Rightarrow> string" where
  "path_Dir p = path_Clean (rev (dropWhile (\<lambda>c. c \<noteq> CHR ''/'') (rev p)))"

subsection \<open>Transport: \<open>getRemote\<close>, \<open>get\<close>, \<open>post\<close>\<close>

definition getRemote :: "string \<Rightarrow> world \<Rightarrow> (error + reader) \<times> world" where
  "getRemote theurl w =
     (case http_Get w (clock w) theurl of
        GetFailed msg \<Rightarrow> (Inl (TransportError msg), call (Get theurl) w)
      | Response status body \<Rightarrow>
          if status \<noteq> 200 then
            (Inl (ErrorString (''Bad status: '' @ Itoa status @ '' from '' @ theurl)),
             emit (Close theurl) (call (Get theurl) w))
          else (Inr (Reader theurl body), call (Get theurl) w))"

text \<open>\<open>get\<close> decodes the body into a \<open>map[string]interface{}\<close>: a JSON object gives its
  map, the JSON value \<open>null\<close> gives the nil map without an error (\<open>Inr None\<close>), anything
  else is a decoding error.\<close>

definition get :: "string \<Rightarrow> go_int \<Rightarrow> world \<Rightarrow> (error + (string \<times> json) list option) \<times> world" where
  "get name id' w =
     (let nameAndID = (if 0 <s id' then path_Join [name, Itoa id'] else name);
          theurl = ''http://'' @ path_Join [JENKINS_SERVER w, ''job'', nameAndID, ''api'', ''json'']
      in case getRemote theurl w of
           (Inl err, w1) \<Rightarrow> (Inl err, w1)
         | (Inr (Reader u body), w1) \<Rightarrow>
             (case body of
                None \<Rightarrow> (Inl (JsonError ''invalid JSON''), emit (Close u) w1)
              | Some (JObj retVal) \<Rightarrow> (Inr (Some retVal), emit (Close u) w1)
              | Some JNull \<Rightarrow> (Inr None, emit (Close u) w1)
              | Some _ \<Rightarrow>
                  (Inl (JsonError ''cannot unmarshal into map[string]interface {}''),
                   emit (Close u) w1)))"

definition post :: "string \<Rightarrow> string \<Rightarrow> string \<Rightarrow> world \<Rightarrow> error option \<times> world" where
  "post name action params w =
     (let theurl = ''http://'' @ path_Join [JENKINS_SERVER w, ''job'', name, ''buildWithParameters'']
                   @ ''?token='' @ name @ ''-token''
      in case url_ParseQuery w params of
           Inl msg \<Rightarrow> (Some (QueryError msg), w)
         | Inr form \<Rightarrow>
             (case http_PostForm w (clock w) theurl form of
                Some msg \<Rightarrow> (Some (TransportError msg), call (PostForm theurl form) w)
              | None \<Rightarrow> (None, emit (Close theurl) (call (PostForm theurl form) w))))"

subsection \<open>Decoding: type assertions with the comma-ok form give the zero value\<close>

definition field :: "(string \<times> json) list \<Rightarrow> string \<Rightarrow> json" where
  "field m k = (case map_of m k of None \<Rightarrow> JNull | Some v \<Rightarrow> v)"

fun as_string :: "json \<Rightarrow> string" where
  "as_string (JStr s) = s"
| "as_string _ = []"

fun as_bool :: "json \<Rightarrow> bool" where
  "as_bool (JBool b) = b"
| "as_bool _ = False"

fun as_float64 :: "json \<Rightarrow> real" where
  "as_float64 (JNum r) = r"
| "as_float64 _ = 0"

fun as_slice :: "json \<Rightarrow> json list" where
  "as_slice (JArr xs) = xs"
| "as_slice _ = []"

text \<open>A failed assertion to a map gives the nil map, which reads as the empty map.\<close>

fun as_map :: "json \<Rightarrow> (string \<times> json) list" where
  "as_map (JObj m) = m"
| "as_map _ = []"

text \<open>The conversion \<open>int(f)\<close> truncates towards zero; outside the range of \<open>int\<close> the
  result depends on the platform (the value of amd64 is used).\<close>

definition int_of_float64 :: "real \<Rightarrow> go_int" where
  "int_of_float64 f =
     (let t = (if 0 \<le> f then \<lfloor>f\<rfloor> else \<lceil>f\<rceil>)
      in if - (2 ^ 63) \<le> t \<and> t < 2 ^ 63 then word_of_int t else push_bit 63 1)"

text \<open>The message of the panic raised by reading a field through a nil pointer.\<close>

definition nil_deref :: string where
  "nil_deref = ''invalid memory address or nil pointer dereference''"

subsection \<open>\<open>GetInfo\<close> and \<open>sanitizeID\<close>\<close>

definition decodeInfo :: "(string \<times> json) list \<Rightarrow> JenkinsInfo" where
  "decodeInfo json =
     (let lastBuild = field json ''lastBuild'';
          lastBuildSafe = as_map lastBuild;
          lastStableBuild = field json ''lastStableBuild'';
          lastStableBuildSafe = as_map lastStableBuild
      in \<lparr> JenkinsInfo.Name = as_string (field json ''name''),
           Description = as_string (field json ''description''),
           JenkinsInfo.Url = as_string (field json ''url''),
           Buildable = as_bool (field json ''buildable''),
           InQueue = as_bool (field json ''inQueue''),
           LastBuild = (if lastBuild \<noteq> JNull
                        then int_of_float64 (as_float64 (field lastBuildSafe ''number'')) else 0),
           LastBuildUrl = (if lastBuild \<noteq> JNull
                           then as_string (field lastBuildSafe ''url'') else []),
           LastStableBuild = (if lastStableBuild \<noteq> JNull
                        then int_of_float64 (as_float64 (field lastStableBuildSafe ''number'')) else 0),
           LastStableBuildUrl = (if lastStableBuild \<noteq> JNull
                           then as_string (field lastStableBuildSafe ''url'') else []) \<rparr>)"

definition GetInfo :: "string \<Rightarrow> world \<Rightarrow> (error + JenkinsInfo option) \<times> world" where
  "GetInfo name w =
     (case get name (- 1) w of
        (Inl err, w1) \<Rightarrow> (Inl err, w1)
      | (Inr None, w1) \<Rightarrow> (Inr None, w1)
      | (Inr (Some json), w1) \<Rightarrow> (Inr (Some (decodeInfo json)), w1))"

text \<open>\<open>sanitizeID\<close> returns the pair \<open>(id, err)\<close> of the source. When \<open>GetInfo\<close> returns
  neither an error nor a record, reading \<open>info.LastBuild\<close> dereferences nil.\<close>

definition sanitizeID :: "string \<Rightarrow> go_int \<Rightarrow> world \<Rightarrow> (go_int \<times> error option) outcome \<times> world" where
  "sanitizeID name id' w =
     (if id' = - 1 then
        (case GetInfo name w of
           (Inl err, w1) \<Rightarrow> (Return (id', Some err), w1)
         | (Inr None, w1) \<Rightarrow> (Panic nil_deref, w1)
         | (Inr (Some info), w1) \<Rightarrow>
             if LastBuild info = 0
             then (Return (id', Some (ErrorString ''no build available'')), w1)
             else (Return (LastBuild info, None), w1))
      else if id' = - 2 then
        (case GetInfo name w of
           (Inl err, w1) \<Rightarrow> (Return (id', Some err), w1)
         | (Inr None, w1) \<Rightarrow> (Panic nil_deref, w1)
         | (Inr (Some info), w1) \<Rightarrow>
             if LastStableBuild info = 0
             then (Return (id', Some (ErrorString ''no stable build available'')), w1)
             else (Return (LastStableBuild info, None), w1))
      else (Return (id', None), w))"

subsection \<open>\<open>GetBuildInfo\<close>\<close>

text \<open>The loop over the \<open>artifacts\<close> array. The assertion of an element to a map has no
  comma-ok form: an element that is not an object panics.\<close>

fun collectArtifacts :: "json list \<Rightarrow> (string \<times> string) list \<Rightarrow> (string \<times> string) list outcome" where
  "collectArtifacts [] acc = Return acc"
| "collectArtifacts (artifact # rest) acc =
     (case artifact of
        JObj artifactSafe \<Rightarrow>
          (let displayPath = as_string (field artifactSafe ''displayPath'');
               relativePath = as_string (field artifactSafe ''relativePath'')
           in collectArtifacts rest
                (if displayPath \<noteq> [] \<and> relativePath \<noteq> []
                 then AList.update displayPath relativePath acc else acc))
      | _ \<Rightarrow> Panic ''interface conversion: interface {} is not map[string]interface {}'')"

definition decodeBuildInfo :: "(string \<times> json) list \<Rightarrow> JenkinsBuildInfo outcome" where
  "decodeBuildInfo json =
     (case collectArtifacts (as_slice (field json ''artifacts'')) [] of
        Panic p \<Rightarrow> Panic p
      | Return artifacts \<Rightarrow>
          Return \<lparr> JenkinsBuildInfo.Name = as_string (field json ''fullDisplayName''),
                   ID = int_of_float64 (as_float64 (field json ''number'')),
                   Artifacts = artifacts,
                   Building = as_bool (field json ''building''),
                   Duration = as_float64 (field json ''duration''),
                   EstimatedDuration = as_float64 (field json ''estimatedDuration''),
                   Result = (if field json ''result'' \<noteq> JNull
                             then as_string (field json ''result'') else ''BUILDING''),
                   Timestamp = as_float64 (field json ''timestamp''),
                   JenkinsBuildInfo.Url = as_string (field json ''url'') \<rparr>)"

definition GetBuildInfo ::
  "string \<Rightarrow> go_int \<Rightarrow> world \<Rightarrow> (error + JenkinsBuildInfo option) outcome \<times> world" where
  "GetBuildInfo name id' w =
     (case sanitizeID name id' w of
        (Panic p, w1) \<Rightarrow> (Panic p, w1)
      | (Return (_, Some err), w1) \<Rightarrow> (Return (Inl err), w1)
      | (Return (id1, None), w1) \<Rightarrow>
          (case get name id1 w1 of
             (Inl err, w2) \<Rightarrow> (Return (Inl err), w2)
           | (Inr None, w2) \<Rightarrow> (Return (Inr None), w2)
           | (Inr (Some json), w2) \<Rightarrow>
               (case decodeBuildInfo json of
                  Panic p \<Rightarrow> (Panic p, w2)
                | Return info \<Rightarrow> (Return (Inr (Some info)), w2))))"

subsection \<open>\<open>DoBuild\<close>\<close>

text \<open>
  The \<open>for\<close> loop of \<open>DoBuild\<close>, with the loop variables \<open>inQueue\<close>, \<open>building\<close> and
  \<open>weird\<close> as arguments. The loop has no bound: the result is \<open>None\<close> when it never
  returns. In the source the assignment \<open>weird = true\<close> stands after the \<open>return\<close> inside
  \<open>if weird\<close>, so no path of the loop changes \<open>weird\<close>.
\<close>

partial_function (option) waitLoop ::
  "string \<Rightarrow> go_int \<Rightarrow> bool \<Rightarrow> bool \<Rightarrow> bool \<Rightarrow> world
     \<Rightarrow> ((error + JenkinsBuildInfo option) outcome \<times> world) option" where
  "waitLoop name newBuild inQueue building weird w =
     (case GetBuildInfo name newBuild w of
        (Panic p, w1) \<Rightarrow> Some (Panic p, w1)
      | (Return (Inr None), w1) \<Rightarrow> Some (Panic nil_deref, w1)
      | (Return (Inr (Some binfo)), w1) \<Rightarrow>
          if \<not> Building binfo then Some (Return (Inr (Some binfo)), w1)
          else waitLoop name newBuild inQueue True weird
                 (emit (Sleep 1000)
                    (if \<not> building then emit (Log [S ''Job is building.'']) w1 else w1))
      | (Return (Inl err), w1) \<Rightarrow>
          (case GetInfo name w1 of
             (Inl err, w2) \<Rightarrow> Some (Return (Inl err), w2)
           | (Inr None, w2) \<Rightarrow> Some (Panic nil_deref, w2)
           | (Inr (Some info), w2) \<Rightarrow>
               if (\<not> InQueue info \<or> LastBuild info + 1 \<noteq> newBuild) \<and> weird
               then Some (Return (Inl (ErrorString
                      ''weird state. could not wait for job to complete.'')), w2)
               else waitLoop name newBuild (inQueue \<or> InQueue info) building weird
                      (emit (Sleep 1000)
                         (if InQueue info \<and> \<not> inQueue
                          then emit (Log [S ''Job is in queue.'']) w2 else w2))))"

text \<open>The part of \<open>DoBuild\<close> that triggers the build: nothing is posted when the job is
  already in the queue.\<close>

definition trigger :: "string \<Rightarrow> string \<Rightarrow> JenkinsInfo \<Rightarrow> go_int \<Rightarrow> world \<Rightarrow> error option \<times> world" where
  "trigger name params info newBuild w =
     (if InQueue info then (None, emit (Log [S ''Job already in queue.'']) w)
      else
        (case post name ''buildWithParameters'' params w of
           (Some err, w1) \<Rightarrow> (Some err, w1)
         | (None, w1) \<Rightarrow> (None, emit (Log [S ''Build #'', I newBuild, S '' scheduled.'']) w1)))"

definition DoBuild ::
  "string \<Rightarrow> string \<Rightarrow> bool \<Rightarrow> world
     \<Rightarrow> ((error + JenkinsBuildInfo option) outcome \<times> world) option" where
  "DoBuild name params wait w =
     (case GetInfo name (emit (Log [S ''Building '', S name]) w) of
        (Inl err, w1) \<Rightarrow> Some (Return (Inl err), w1)
      | (Inr None, w1) \<Rightarrow> Some (Panic nil_deref, w1)
      | (Inr (Some info), w1) \<Rightarrow>
          (let newBuild = LastBuild info + 1
           in case trigger name params info newBuild w1 of
                (Some err, w2) \<Rightarrow> Some (Return (Inl err), w2)
              | (None, w2) \<Rightarrow>
                  if \<not> wait then Some (Return (Inr None), w2)
                  else
                    (case GetBuildInfo name (LastStableBuild info) w2 of
                       (Panic p, w3) \<Rightarrow> Some (Panic p, w3)
                     | (Return (Inl err), w3) \<Rightarrow>
                         Some (Return (Inl (ErrorString
                           (''Couldn'' @ [CHR 0x27] @ ''t fetch last stable build info''))), w3)
                     | (Return (Inr None), w3) \<Rightarrow> Some (Panic nil_deref, w3)
                     | (Return (Inr (Some binfo)), w3) \<Rightarrow>
                         waitLoop name newBuild False False False
                           (emit (Log [S ''Waiting for job to complete. Last stable took '',
                                       F (Duration binfo), S '' milliseconds.'']) w3))))"

subsection \<open>\<open>GetArtifactReader\<close> and \<open>GetArtifacts\<close>\<close>

text \<open>Reading a \<open>map[string]string\<close>: a missing key gives the empty string.\<close>

definition index :: "(string \<times> string) list \<Rightarrow> string \<Rightarrow> string" where
  "index m k = (case map_of m k of None \<Rightarrow> [] | Some v \<Rightarrow> v)"

definition GetArtifactReader ::
  "string \<Rightarrow> go_int \<Rightarrow> string \<Rightarrow> world \<Rightarrow> (error + reader) outcome \<times> world" where
  "GetArtifactReader name id' artifact w =
     (case GetBuildInfo name id' w of
        (Panic p, w1) \<Rightarrow> (Panic p, w1)
      | (Return (Inl err), w1) \<Rightarrow> (Return (Inl err), w1)
      | (Return (Inr None), w1) \<Rightarrow> (Panic nil_deref, w1)
      | (Return (Inr (Some info)), w1) \<Rightarrow>
          if Result info \<noteq> ''SUCCESS''
          then (Return (Inl (ErrorString ''the build you requested failed'')), w1)
          else
            (let nameAndID = path_Join [name, Itoa id'];
                 url = ''http://'' @ path_Join [JENKINS_SERVER w1, ''job'', nameAndID,
                                                ''artifact'', index (Artifacts info) artifact]
             in case getRemote url w1 of (r, w2) \<Rightarrow> (Return r, w2)))"

text \<open>The deferred \<open>Close\<close> calls run when \<open>GetArtifacts\<close> returns, the latest first.\<close>

definition run_deferred :: "event list \<Rightarrow> world \<Rightarrow> world" where
  "run_deferred deferred w = fold emit deferred w"

text \<open>
  The \<open>range\<close> loop of \<open>GetArtifacts\<close> over the artifact map, in the order of the
  association list (Go leaves the order of a map unspecified). The slice \<open>artifacts\<close> is
  an argument, as the loop variable it is in the source; no statement of the loop appends
  to it.
\<close>

fun fetchLoop ::
  "string \<Rightarrow> string \<Rightarrow> (string \<times> string) list \<Rightarrow> string list \<Rightarrow> event list \<Rightarrow> world
     \<Rightarrow> (string list \<times> error option) \<times> world" where
  "fetchLoop nameAndID output [] artifacts deferred w =
     ((artifacts, None), run_deferred deferred w)"
| "fetchLoop nameAndID output ((outpath, inpath) # rest) artifacts deferred w =
     (let url = ''http://'' @ path_Join [JENKINS_SERVER w, ''job'', nameAndID, ''artifact'', inpath]
      in case getRemote url w of
           (Inl err, w1) \<Rightarrow> ((artifacts, Some err), run_deferred deferred w1)
         | (Inr (Reader u body), w1) \<Rightarrow>
             (let dir = path_Join [output, path_Dir outpath];
                  w2 = call (MkdirAll dir) w1
              in case os_MkdirAll w1 (clock w1) dir of
                   Some msg \<Rightarrow>
                     ((artifacts, Some (PathError msg)), run_deferred (Close u # deferred) w2)
                 | None \<Rightarrow>
                     (let file = path_Join [output, outpath];
                          w3 = call (Create file) w2
                      in case os_Create w2 (clock w2) file of
                           Some msg \<Rightarrow>
                             ((artifacts, Some (PathError msg)),
                              run_deferred (Close u # deferred) w3)
                         | None \<Rightarrow>
                             fetchLoop nameAndID output rest artifacts
                               (Close file # Close u # deferred)
                               (emit (Copy file u) (emit (Log [S ''-> '', S file]) w3)))))"

definition GetArtifacts ::
  "string \<Rightarrow> go_int \<Rightarrow> string \<Rightarrow> world \<Rightarrow> (string list \<times> error option) outcome \<times> world" where
  "GetArtifacts name id' output w =
     (case sanitizeID name id' (emit (Log [S ''Fetching '', S name, S '' to '', S output]) w) of
        (Panic p, w1) \<Rightarrow> (Panic p, w1)
      | (Return (_, Some err), w1) \<Rightarrow> (Return ([], Some err), w1)
      | (Return (id1, None), w1) \<Rightarrow>
          (case GetBuildInfo name id1 w1 of
             (Panic p, w2) \<Rightarrow> (Panic p, w2)
           | (Return (Inl err), w2) \<Rightarrow> (Return ([], Some err), w2)
           | (Return (Inr None), w2) \<Rightarrow> (Panic nil_deref, w2)
           | (Return (Inr (Some info)), w2) \<Rightarrow>
               if Result info \<noteq> ''SUCCESS''
               then (Return ([], Some (ErrorString ''the build you requested failed'')), w2)
               else
                 (let nameAndID = path_Join [name, Itoa id1];
                      w3 = emit (Log [S ''Fetching artifacts for build #'', I id1, S '' ('',
                                      N (length (Artifacts info)), S '' total)'']) w2
                  in case fetchLoop nameAndID output (Artifacts info) [] [] w3 of
                       (r, w4) \<Rightarrow> (Return r, w4))))"

section \<open>Notions used to state the properties\<close>

subsection \<open>Kinds of events\<close>

fun is_fetch :: "event \<Rightarrow> bool" where
  "is_fetch (Get u) = True"
| "is_fetch (Close u) = True"
| "is_fetch _ = False"

fun is_post :: "event \<Rightarrow> bool" where
  "is_post (PostForm u f) = True"
| "is_post _ = False"

fun is_fs_write :: "event \<Rightarrow> bool" where
  "is_fs_write (MkdirAll p) = True"
| "is_fs_write (Create p) = True"
| "is_fs_write (Copy p u) = True"
| "is_fs_write _ = False"

text \<open>Two worlds with the same environment; a later world that differs from an earlier
  one by \<open>Get\<close> and \<open>Close\<close> events only.\<close>

definition same_env :: "world \<Rightarrow> world \<Rightarrow> bool" where
  "same_env w w' \<longleftrightarrow>
     JENKINS_SERVER w' = JENKINS_SERVER w \<and> http_Get w' = http_Get w \<and>
     http_PostForm w' = http_PostForm w \<and> url_ParseQuery w' = url_ParseQuery w \<and>
     os_MkdirAll w' = os_MkdirAll w \<and> os_Create w' = os_Create w"

definition fetches_only :: "world \<Rightarrow> world \<Rightarrow> bool" where
  "fetches_only w w' \<longleftrightarrow>
     same_env w w' \<and> (\<exists>es. trace w' = trace w @ es \<and> list_all is_fetch es)"

text \<open>The URL \<open>get\<close> requests, the URL \<open>post\<close> requests, and the world after a request
  whose body has been closed.\<close>

definition api_url :: "string \<Rightarrow> go_int \<Rightarrow> world \<Rightarrow> string" where
  "api_url name id' w =
     ''http://'' @ path_Join [JENKINS_SERVER w, ''job'',
                              (if 0 <s id' then path_Join [name, Itoa id'] else name),
                              ''api'', ''json'']"

definition trigger_url :: "string \<Rightarrow> world \<Rightarrow> string" where
  "trigger_url name w =
     ''http://'' @ path_Join [JENKINS_SERVER w, ''job'', name, ''buildWithParameters'']
     @ ''?token='' @ name @ ''-token''"

definition fetched :: "string \<Rightarrow> world \<Rightarrow> world" where
  "fetched u w = emit (Close u) (call (Get u) w)"

definition weird_state :: error where
  "weird_state = ErrorString ''weird state. could not wait for job to complete.''"

definition build_failed :: error where
  "build_failed = ErrorString ''the build you requested failed''"

subsection \<open>Concrete worlds and documents\<close>

text \<open>A world whose server answers \<open>srv\<close>, where every other call succeeds.\<close>

definition base_world :: "(nat \<Rightarrow> string \<Rightarrow> http_result) \<Rightarrow> world" where
  "base_world srv =
     \<lparr> JENKINS_SERVER = ''alfred-jenkins.sv2:8080'',
       http_Get = srv,
       http_PostForm = (\<lambda>t u f. None),
       url_ParseQuery = (\<lambda>s. Inr [(''env'', [''prod''])]),
       os_MkdirAll = (\<lambda>t p. None),
       os_Create = (\<lambda>t p. None),
       clock = 0,
       trace = [] \<rparr>"

definition numbered :: "real \<Rightarrow> json" where
  "numbered n = JObj [(''number'', JNum n)]"

definition job_doc :: "json \<Rightarrow> json \<Rightarrow> bool \<Rightarrow> (string \<times> json) list" where
  "job_doc lastBuild lastStableBuild inQueue =
     [(''name'', JStr ''demo''), (''inQueue'', JBool inQueue),
      (''lastBuild'', lastBuild), (''lastStableBuild'', lastStableBuild)]"

definition build_doc :: "real \<Rightarrow> bool \<Rightarrow> json \<Rightarrow> json list \<Rightarrow> (string \<times> json) list" where
  "build_doc number building result artifacts =
     [(''number'', JNum number), (''building'', JBool building), (''result'', result),
      (''artifacts'', JArr artifacts)]"

definition artifact_doc :: "string \<Rightarrow> string \<Rightarrow> json" where
  "artifact_doc displayPath relativePath =
     JObj [(''displayPath'', JStr displayPath), (''relativePath'', JStr relativePath)]"

text \<open>A job without builds, and a job with last build 5 and last stable build 3.\<close>

definition fresh_job_world :: world where
  "fresh_job_world = base_world (\<lambda>t u. Response 200 (Some (JObj (job_doc JNull JNull False))))"

definition job_5_3_world :: world where
  "job_5_3_world =
     base_world (\<lambda>t u. Response 200 (Some (JObj (job_doc (numbered 5) (numbered 3) False))))"

section \<open>Auxiliary facts\<close>

subsection \<open>Worlds\<close>

lemma emit_fields [simp]:
  "JENKINS_SERVER (emit e w) = JENKINS_SERVER w" "http_Get (emit e w) = http_Get w"
  "http_PostForm (emit e w) = http_PostForm w" "url_ParseQuery (emit e w) = url_ParseQuery w"
  "os_MkdirAll (emit e w) = os_MkdirAll w" "os_Create (emit e w) = os_Create w"
  "clock (emit e w) = clock w" "trace (emit e w) = trace w @ [e]"
  by (simp_all add: emit_def)

lemma call_fields [simp]:
  "JENKINS_SERVER (call e w) = JENKINS_SERVER w" "http_Get (call e w) = http_Get w"
  "http_PostForm (call e w) = http_PostForm w" "url_ParseQuery (call e w) = url_ParseQuery w"
  "os_MkdirAll (call e w) = os_MkdirAll w" "os_Create (call e w) = os_Create w"
  "clock (call e w) = Suc (clock w)" "trace (call e w) = trace w @ [e]"
  by (simp_all add: call_def)

lemma fetched_fields [simp]:
  "JENKINS_SERVER (fetched u w) = JENKINS_SERVER w" "http_Get (fetched u w) = http_Get w"
  "http_PostForm (fetched u w) = http_PostForm w" "url_ParseQuery (fetched u w) = url_ParseQuery w"
  "os_MkdirAll (fetched u w) = os_MkdirAll w" "os_Create (fetched u w) = os_Create w"
  "clock (fetched u w) = Suc (clock w)" "trace (fetched u w) = trace w @ [Get u, Close u]"
  by (simp_all add: fetched_def)

lemma base_world_fields [simp]:
  "JENKINS_SERVER (base_world srv) = ''alfred-jenkins.sv2:8080''"
  "http_Get (base_world srv) = srv"
  "http_PostForm (base_world srv) = (\<lambda>t u f. None)"
  "url_ParseQuery (base_world srv) = (\<lambda>s. Inr [(''env'', [''prod''])])"
  "os_MkdirAll (base_world srv) = (\<lambda>t p. None)"
  "os_Create (base_world srv) = (\<lambda>t p. None)"
  "clock (base_world srv) = 0" "trace (base_world srv) = []"
  by (simp_all add: base_world_def)

lemma fetches_only_refl: "fetches_only w w"
  by (simp add: fetches_only_def same_env_def)

lemma fetches_only_trans:
  "fetches_only w w1 \<Longrightarrow> fetches_only w1 w2 \<Longrightarrow> fetches_only w w2"
  by (auto simp: fetches_only_def same_env_def)

lemma fetches_only_call_Get: "fetches_only w (call (Get u) w)"
  by (simp add: fetches_only_def same_env_def)

lemma fetches_only_emit_Close: "fetches_only w (emit (Close u) w)"
  by (simp add: fetches_only_def same_env_def)

lemma fetches_only_filter:
  assumes "fetches_only w w'" and "\<And>e. is_fetch e \<Longrightarrow> \<not> P e"
  shows "filter P (trace w') = filter P (trace w)"
proof -
  from assms(1) obtain es where es: "trace w' = trace w @ es" "list_all is_fetch es"
    by (auto simp: fetches_only_def)
  have "filter P es = []" using es(2) assms(2) by (induction es) auto
  with es(1) show ?thesis by simp
qed

lemma is_fetch_not_post: "is_fetch e \<Longrightarrow> \<not> is_post e"
  by (cases e) auto

lemma is_fetch_not_fs_write: "is_fetch e \<Longrightarrow> \<not> is_fs_write e"
  by (cases e) auto

subsection \<open>The functions that read the server only fetch\<close>

lemma getRemote_fetches: "getRemote u w = (r, w') \<Longrightarrow> fetches_only w w'"
  by (auto simp: getRemote_def split: http_result.splits if_splits
           intro: fetches_only_call_Get
                  fetches_only_trans [OF fetches_only_call_Get fetches_only_emit_Close])

lemma get_fetches: "get name i w = (r, w') \<Longrightarrow> fetches_only w w'"
  by (auto simp: get_def Let_def
           split: prod.splits sum.splits reader.splits option.splits json.splits
           dest!: getRemote_fetches
           intro: fetches_only_trans [OF _ fetches_only_emit_Close])

lemma GetInfo_fetches: "GetInfo name w = (r, w') \<Longrightarrow> fetches_only w w'"
  by (auto simp: GetInfo_def split: prod.splits sum.splits option.splits dest: get_fetches)

lemma sanitizeID_fetches: "sanitizeID name i w = (r, w') \<Longrightarrow> fetches_only w w'"
  by (auto simp: sanitizeID_def split: prod.splits sum.splits option.splits if_splits
           dest: GetInfo_fetches intro: fetches_only_refl)

lemma GetBuildInfo_fetches: "GetBuildInfo name i w = (r, w') \<Longrightarrow> fetches_only w w'"
  by (auto simp: GetBuildInfo_def
           split: prod.splits sum.splits option.splits outcome.splits
           dest!: sanitizeID_fetches get_fetches intro: fetches_only_trans)

subsection \<open>One request, evaluated\<close>

lemma get_object:
  "http_Get w (clock w) (api_url name i w) = Response 200 (Some (JObj m))
   \<Longrightarrow> get name i w = (Inr (Some m), fetched (api_url name i w) w)"
  by (simp add: get_def getRemote_def api_url_def fetched_def Let_def)

lemma get_bad_status:
  "http_Get w (clock w) (api_url name i w) = Response status body \<Longrightarrow> status \<noteq> 200
   \<Longrightarrow> get name i w =
         (Inl (ErrorString (''Bad status: '' @ Itoa status @ '' from '' @ api_url name i w)),
          fetched (api_url name i w) w)"
  by (simp add: get_def getRemote_def api_url_def fetched_def Let_def)

lemma GetInfo_object:
  "http_Get w (clock w) (api_url name (- 1) w) = Response 200 (Some (JObj m))
   \<Longrightarrow> GetInfo name w = (Inr (Some (decodeInfo m)), fetched (api_url name (- 1) w) w)"
  by (simp add: GetInfo_def get_object)

lemma sanitizeID_literal:
  "i \<noteq> - 1 \<Longrightarrow> i \<noteq> - 2 \<Longrightarrow> sanitizeID name i w = (Return (i, None), w)"
  by (simp add: sanitizeID_def)

lemma GetBuildInfo_object:
  "i \<noteq> - 1 \<Longrightarrow> i \<noteq> - 2
   \<Longrightarrow> http_Get w (clock w) (api_url name i w) = Response 200 (Some (JObj m))
   \<Longrightarrow> decodeBuildInfo m = Return info
   \<Longrightarrow> GetBuildInfo name i w = (Return (Inr (Some info)), fetched (api_url name i w) w)"
  by (simp add: GetBuildInfo_def sanitizeID_literal get_object)

lemma GetBuildInfo_bad_status:
  "i \<noteq> - 1 \<Longrightarrow> i \<noteq> - 2
   \<Longrightarrow> http_Get w (clock w) (api_url name i w) = Response status body \<Longrightarrow> status \<noteq> 200
   \<Longrightarrow> GetBuildInfo name i w =
         (Return (Inl (ErrorString
            (''Bad status: '' @ Itoa status @ '' from '' @ api_url name i w))),
          fetched (api_url name i w) w)"
  by (simp add: GetBuildInfo_def sanitizeID_literal get_bad_status)

lemma int_of_float64_0 [simp]: "int_of_float64 0 = 0"
  by (simp add: int_of_float64_def)

lemma int_of_float64_numeral [simp]:
  "int_of_float64 3 = 3" "int_of_float64 5 = 5" "int_of_float64 6 = 6"
  by (simp_all add: int_of_float64_def)

lemma decodeInfo_job_doc:
  "InQueue (decodeInfo (job_doc lb ls q)) = q"
  "LastBuild (decodeInfo (job_doc lb ls q)) =
     (if lb \<noteq> JNull then int_of_float64 (as_float64 (field (as_map lb) ''number'')) else 0)"
  "LastStableBuild (decodeInfo (job_doc lb ls q)) =
     (if ls \<noteq> JNull then int_of_float64 (as_float64 (field (as_map ls) ''number'')) else 0)"
  by (simp_all add: decodeInfo_def job_doc_def field_def Let_def)

lemma field_numbered [simp]: "as_float64 (field (as_map (numbered n)) ''number'') = n"
  by (simp add: numbered_def field_def)

lemma numbered_not_null [simp]: "numbered n \<noteq> JNull"
  by (simp add: numbered_def)

section \<open>The build identifier resolver\<close>

text \<open>
  C9. A positive literal build identifier is returned unchanged, without an error, and
  the world is unchanged: no call is made and nothing is added to the trace.
\<close>

theorem sanitizeID_positive:
  "0 <s id' \<Longrightarrow> sanitizeID name id' w = (Return (id', None), w)"
proof -
  assume pos: "0 <s id'"
  have "id' \<noteq> - 1" using pos by (auto simp: word_sless_alt)
  moreover have "id' \<noteq> - 2" using pos by (auto simp: word_sless_alt)
  ultimately show ?thesis by (simp add: sanitizeID_def)
qed

theorem sanitizeID_positive_witness:
  "0 <s (7 :: go_int) \<and>
   sanitizeID ''demo'' 7 job_5_3_world = (Return (7, None), job_5_3_world)"
  using sanitizeID_positive [of 7 "''demo''" job_5_3_world] by (simp add: word_sless_alt)

text \<open>
  C8. When the job document is fetched and decoded, resolving latest (-1) fails with the
  error "no build available" if \<open>LastBuild\<close> is 0 and returns \<open>LastBuild\<close> otherwise;
  resolving latest stable (-2) fails with "no stable build available" if
  \<open>LastStableBuild\<close> is 0 and returns \<open>LastStableBuild\<close> otherwise.
\<close>

theorem sanitizeID_sentinels:
  assumes "GetInfo name w = (Inr (Some info), w1)"
  shows "sanitizeID name (- 1) w =
           (if LastBuild info = 0
            then (Return (- 1, Some (ErrorString ''no build available'')), w1)
            else (Return (LastBuild info, None), w1)) \<and>
         sanitizeID name (- 2) w =
           (if LastStableBuild info = 0
            then (Return (- 2, Some (ErrorString ''no stable build available'')), w1)
            else (Return (LastStableBuild info, None), w1))"
  using assms by (simp add: sanitizeID_def)

theorem sanitizeID_sentinels_witness:
  "fst (sanitizeID ''demo'' (- 1) fresh_job_world)
     = Return (- 1, Some (ErrorString ''no build available'')) \<and>
   fst (sanitizeID ''demo'' (- 2) fresh_job_world)
     = Return (- 2, Some (ErrorString ''no stable build available'')) \<and>
   fst (sanitizeID ''demo'' (- 1) job_5_3_world) = Return (5, None) \<and>
   fst (sanitizeID ''demo'' (- 2) job_5_3_world) = Return (3, None)"
proof -
  have fresh: "GetInfo ''demo'' fresh_job_world =
      (Inr (Some (decodeInfo (job_doc JNull JNull False))),
       fetched (api_url ''demo'' (- 1) fresh_job_world) fresh_job_world)"
    by (rule GetInfo_object) (simp add: fresh_job_world_def)
  have job: "GetInfo ''demo'' job_5_3_world =
      (Inr (Some (decodeInfo (job_doc (numbered 5) (numbered 3) False))),
       fetched (api_url ''demo'' (- 1) job_5_3_world) job_5_3_world)"
    by (rule GetInfo_object) (simp add: job_5_3_world_def)
  show ?thesis
    using sanitizeID_sentinels [OF fresh] sanitizeID_sentinels [OF job]
    by (simp add: decodeInfo_job_doc)
qed

text \<open>
  C10. Every identifier other than the sentinels -1 and -2 (0 and the negatives below -2
  included) is returned unchanged, without an error and with the world unchanged. For
  such an identifier that is not positive, \<open>get\<close> requests the same URL as for the job
  document, so that \<open>GetBuildInfo\<close> decodes the job document as a build.
\<close>

theorem sanitizeID_not_sentinel:
  assumes "id' \<noteq> - 1" and "id' \<noteq> - 2"
  shows "sanitizeID name id' w = (Return (id', None), w) \<and>
         (\<not> 0 <s id' \<longrightarrow>
            api_url name id' w = api_url name (- 1) w \<and>
            get name id' w = get name (- 1) w \<and>
            GetBuildInfo name id' w =
              (case get name (- 1) w of
                 (Inl err, w2) \<Rightarrow> (Return (Inl err), w2)
               | (Inr None, w2) \<Rightarrow> (Return (Inr None), w2)
               | (Inr (Some json), w2) \<Rightarrow>
                   (case decodeBuildInfo json of
                      Panic p \<Rightarrow> (Panic p, w2)
                    | Return binfo \<Rightarrow> (Return (Inr (Some binfo)), w2))))"
proof -
  have s: "sanitizeID name id' w = (Return (id', None), w)"
    using assms by (simp add: sanitizeID_def)
  have m1: "\<not> 0 <s (- 1 :: go_int)" by (simp add: word_sless_alt)
  have g: "get name id' w = get name (- 1) w" if "\<not> 0 <s id'"
    using that m1 by (simp add: get_def)
  have u: "api_url name id' w = api_url name (- 1) w" if "\<not> 0 <s id'"
    using that m1 by (simp add: api_url_def)
  have b: "GetBuildInfo name id' w =
              (case get name (- 1) w of
                 (Inl err, w2) \<Rightarrow> (Return (Inl err), w2)
               | (Inr None, w2) \<Rightarrow> (Return (Inr None), w2)
               | (Inr (Some json), w2) \<Rightarrow>
                   (case decodeBuildInfo json of
                      Panic p \<Rightarrow> (Panic p, w2)
                    | Return binfo \<Rightarrow> (Return (Inr (Some binfo)), w2)))"
    if "\<not> 0 <s id'"
    by (simp add: GetBuildInfo_def s g [OF that])
  show ?thesis using s g u b by blast
qed

end
